theory Spec2Isabelle
  imports Complex_Main
begin

section \<open>Python values used by \<open>python_backend/app.py\<close>\<close>

text \<open>
  Exceptions are values. Every constructor stands for a subclass of Python's
  \<open>Exception\<close>, which is what the handler \<open>except Exception\<close> of
  \<open>evaluate_answer\<close> catches. \<open>HTTPException\<close> carries the status code of an
  error raised by the web framework while it reads the request.
\<close>

datatype exn =
    AttributeError
  | IndexError
  | ValueError
  | OverflowError
  | FileNotFoundError
  | HTTPException nat
  | OtherException string

text \<open>
  A Python \<open>str\<close> is a sequence of Unicode code points and \<open>len\<close> counts code
  points, so the texts that come from a request are lists of code points. The fixed
  texts of the program are ASCII and are kept as \<open>string\<close> literals.
\<close>

type_synonym ustring = "nat list"

definition ustr :: "string \<Rightarrow> ustring" where
  "ustr s = map of_char s"

text \<open>The code points for which \<open>str.isspace\<close> holds; \<open>strip()\<close> and \<open>split()\<close>
  without arguments use the same set.\<close>

definition py_isspace :: "nat \<Rightarrow> bool" where
  "py_isspace c \<longleftrightarrow>
     (9 \<le> c \<and> c \<le> 13) \<or> (28 \<le> c \<and> c \<le> 32) \<or> c = 133 \<or> c = 160 \<or> c = 5760
     \<or> (8192 \<le> c \<and> c \<le> 8202) \<or> c = 8232 \<or> c = 8233 \<or> c = 8239 \<or> c = 8287
     \<or> c = 12288"

definition py_strip :: "ustring \<Rightarrow> ustring" where
  "py_strip s = rev (dropWhile py_isspace (rev (dropWhile py_isspace s)))"

text \<open>\<open>s.split()\<close>: the maximal runs of non-space code points. The first argument
  is the word being read, reversed.\<close>

fun split_from :: "ustring \<Rightarrow> ustring \<Rightarrow> ustring list" where
  "split_from cur [] = (if cur = [] then [] else [rev cur])"
| "split_from cur (c # cs) =
     (if py_isspace c
      then (if cur = [] then split_from [] cs else rev cur # split_from [] cs)
      else split_from (c # cur) cs)"

definition py_split :: "ustring \<Rightarrow> ustring list" where
  "py_split s = split_from [] s"

subsection \<open>Floats\<close>

text \<open>
  A Python \<open>float\<close> (and a \<open>numpy.float64\<close>, which is a subclass of it) is an
  IEEE-754 binary64 value: \<open>Finite m e\<close> is the number \<open>m * 2 ^ e\<close>, and there are
  the two infinities and NaN.
\<close>

datatype pyfloat = Finite int int | PosInf | NegInf | NaN

text \<open>The number of bits by which a mantissa exceeds the 53 bits of a binary64.\<close>

fun excess_bits :: "nat \<Rightarrow> nat" where
  "excess_bits n = (if n < 2 ^ 53 then 0 else Suc (excess_bits (n div 2)))"

declare excess_bits.simps [simp del]

text \<open>\<open>m / 2 ^ s\<close> rounded to the nearest integer, ties to the even one.\<close>

definition round_shift :: "int \<Rightarrow> nat \<Rightarrow> int" where
  "round_shift m s =
     (if s = 0 then m
      else let q = m div 2 ^ s; r = m mod 2 ^ s; half = 2 ^ (s - 1)
           in if r < half then q
              else if half < r then q + 1
              else if even q then q else q + 1)"

text \<open>The binary64 nearest to the exact number \<open>m * 2 ^ e\<close> (round to nearest, ties
  to even, gradual underflow below \<open>2 ^ -1022\<close>, overflow to infinity).\<close>

definition round_double :: "int \<Rightarrow> int \<Rightarrow> pyfloat" where
  "round_double m e =
     (let e' = max (e + int (excess_bits (nat \<bar>m\<bar>))) (- 1074);
          m' = round_shift m (nat (e' - e));
          e'' = (if e' \<le> e then e else e');
          inf = (if 0 < m' then PosInf else NegInf)
      in if m' = 0 \<or> e'' < 0 then Finite m' e''
         else if 1024 < e'' then inf
         else if 2 ^ nat (1024 - e'') \<le> \<bar>m'\<bar> then inf
         else Finite m' e'')"

text \<open>\<open>x * 100\<close> for a float \<open>x\<close>: the integer 100 becomes the float 100.0 and the
  exact product is rounded.\<close>

definition fmul100 :: "pyfloat \<Rightarrow> pyfloat" where
  "fmul100 x = (case x of Finite m e \<Rightarrow> round_double (100 * m) e | _ \<Rightarrow> x)"

text \<open>\<open>a > b\<close> on floats; every comparison with NaN is false.\<close>

fun pf_gt :: "pyfloat \<Rightarrow> pyfloat \<Rightarrow> bool" where
  "pf_gt NaN _ = False"
| "pf_gt _ NaN = False"
| "pf_gt PosInf b = (b \<noteq> PosInf)"
| "pf_gt NegInf _ = False"
| "pf_gt (Finite m e) PosInf = False"
| "pf_gt (Finite m e) NegInf = True"
| "pf_gt (Finite m1 e1) (Finite m2 e2) =
     (let e = min e1 e2 in m2 * 2 ^ nat (e2 - e) < m1 * 2 ^ nat (e1 - e))"

text \<open>The builtin \<open>max\<close> on a sequence: the first item is kept until a later one
  compares greater; an empty sequence raises \<open>ValueError\<close>.\<close>

fun max_from :: "pyfloat \<Rightarrow> pyfloat list \<Rightarrow> pyfloat" where
  "max_from cur [] = cur"
| "max_from cur (x # xs) = max_from (if pf_gt x cur then x else cur) xs"

definition py_max :: "pyfloat list \<Rightarrow> exn + pyfloat" where
  "py_max xs = (case xs of [] \<Rightarrow> Inl ValueError | x # rest \<Rightarrow> Inr (max_from x rest))"

text \<open>The integer part of \<open>m * 2 ^ e\<close>, towards zero.\<close>

definition py_trunc :: "int \<Rightarrow> int \<Rightarrow> int" where
  "py_trunc m e =
     (if 0 \<le> e then m * 2 ^ nat e
      else if 0 \<le> m then m div 2 ^ nat (- e)
      else - ((- m) div 2 ^ nat (- e)))"

text \<open>\<open>int(x)\<close> for a float: truncation; NaN raises \<open>ValueError\<close> and an infinity
  raises \<open>OverflowError\<close>.\<close>

definition int_of_float :: "pyfloat \<Rightarrow> exn + int" where
  "int_of_float x =
     (case x of
        Finite m e \<Rightarrow> Inr (py_trunc m e)
      | NaN \<Rightarrow> Inl ValueError
      | _ \<Rightarrow> Inl OverflowError)"

subsection \<open>Request values and predictions\<close>

text \<open>What \<open>request.get_json()\<close> can return: \<open>JNull\<close> is \<open>None\<close>, \<open>JObj\<close> a dict
  (an association list read with \<open>map_of\<close>).\<close>

datatype json =
    JNull
  | JBool bool
  | JInt int
  | JFloat pyfloat
  | JStr ustring
  | JArr "json list"
  | JObj "(ustring \<times> json) list"

text \<open>Python truth value, as tested by \<open>not x\<close>.\<close>

fun truthy :: "json \<Rightarrow> bool" where
  "truthy JNull = False"
| "truthy (JBool b) = b"
| "truthy (JInt n) = (n \<noteq> 0)"
| "truthy (JFloat x) = (case x of Finite m e \<Rightarrow> m \<noteq> 0 | _ \<Rightarrow> True)"
| "truthy (JStr s) = (s \<noteq> [])"
| "truthy (JArr xs) = (xs \<noteq> [])"
| "truthy (JObj kvs) = (kvs \<noteq> [])"

text \<open>\<open>d.get(key, default)\<close>.\<close>

definition py_get :: "(ustring \<times> json) list \<Rightarrow> ustring \<Rightarrow> json \<Rightarrow> json" where
  "py_get d k dflt = (case map_of d k of None \<Rightarrow> dflt | Some v \<Rightarrow> v)"

text \<open>
  An element of what \<open>model.predict\<close> returns: a Python \<open>int\<close>, a \<open>bool\<close>
  (a subclass of \<open>int\<close>), a \<open>float\<close> (\<open>numpy.float64\<close> is a subclass of it), a
  numpy integer scalar such as \<open>numpy.int64\<close> (a number, but of a class that is
  neither \<open>int\<close> nor \<open>float\<close> nor a subclass of them), or an object of any other
  class, such as a text label.
\<close>

datatype prediction =
    PredInt int
  | PredBool bool
  | PredFloat pyfloat
  | PredNumpyInt int
  | PredOther

text \<open>\<open>isinstance(prediction, (int, float))\<close>.\<close>

definition is_int_or_float :: "prediction \<Rightarrow> bool" where
  "is_int_or_float p =
     (case p of
        PredInt n \<Rightarrow> True
      | PredBool b \<Rightarrow> True
      | PredFloat x \<Rightarrow> True
      | PredNumpyInt n \<Rightarrow> False
      | PredOther \<Rightarrow> False)"

text \<open>\<open>int(prediction)\<close>; the program calls it only on an \<open>int\<close> or a \<open>float\<close>.\<close>

definition int_of_prediction :: "prediction \<Rightarrow> exn + int" where
  "int_of_prediction p =
     (case p of
        PredInt n \<Rightarrow> Inr n
      | PredBool b \<Rightarrow> Inr (if b then 1 else 0)
      | PredFloat x \<Rightarrow> int_of_float x
      | PredNumpyInt n \<Rightarrow> Inr n
      | PredOther \<Rightarrow> Inl (OtherException ''TypeError''))"

section \<open>The artifacts and the calls made on them\<close>

text \<open>
  The vectorizer and the model are opaque objects loaded from disk. Each method either
  raises or returns; \<open>'v\<close> is the type of feature vectors. \<open>has_predict_proba\<close> is
  \<open>hasattr(model, 'predict_proba')\<close>.
\<close>

record 'v vectorizer_obj =
  transform :: "ustring list \<Rightarrow> exn + 'v"

record 'v model_obj =
  has_predict_proba :: bool
  predict :: "'v \<Rightarrow> exn + prediction list"
  predict_proba :: "'v \<Rightarrow> exn + pyfloat list list"

text \<open>The module's global variables \<open>model\<close> and \<open>vectorizer\<close>, initially \<open>None\<close>.\<close>

record 'v globals =
  model :: "'v model_obj option"
  vectorizer :: "'v vectorizer_obj option"

definition initial_globals :: "'v globals" where
  "initial_globals = \<lparr>model = None, vectorizer = None\<rparr>"

text \<open>
  A computation returns its outcome together with the method calls it made on the
  artifacts, in order.
\<close>

datatype call = CallTransform | CallPredict | CallPredictProba

type_synonym 'a traced = "(exn + 'a) \<times> call list"

definition pure :: "exn + 'a \<Rightarrow> 'a traced" where
  "pure r = (r, [])"

definition invoke :: "call \<Rightarrow> exn + 'a \<Rightarrow> 'a traced" where
  "invoke c r = (r, [c])"

definition then_do :: "'a traced \<Rightarrow> ('a \<Rightarrow> 'b traced) \<Rightarrow> 'b traced" where
  "then_do x f =
     (case fst x of
        Inl e \<Rightarrow> (Inl e, snd x)
      | Inr a \<Rightarrow> (fst (f a), snd x @ snd (f a)))"

text \<open>\<open>try: body except Exception: return handler\<close>.\<close>

definition try_except :: "'a traced \<Rightarrow> 'a \<Rightarrow> 'a traced" where
  "try_except body handler =
     (case fst body of Inl e \<Rightarrow> (Inr handler, snd body) | Inr a \<Rightarrow> body)"

text \<open>\<open>xs[0]\<close>.\<close>

definition first_item :: "'a list \<Rightarrow> exn + 'a" where
  "first_item xs = (case xs of [] \<Rightarrow> Inl IndexError | x # _ \<Rightarrow> Inr x)"

section \<open>Evaluation logic\<close>

record eval_result =
  score :: int
  feedback :: string
  strengths :: "string list"
  improvements :: "string list"

definition generate_feedback :: "int \<Rightarrow> ustring \<Rightarrow> json \<Rightarrow> string \<times> string list \<times> string list" where
  "generate_feedback score' answer question =
     (let word_count = length (py_split answer);
          strengths0 =
            (if 80 \<le> score' then
               [''Comprehensive and well-structured answer'',
                ''Demonstrates strong understanding'',
                ''Clear and articulate communication'']
             else if 60 \<le> score' then
               [''Good understanding of the topic'', ''Relevant points covered'']
             else if 40 \<le> score' then [''Basic understanding demonstrated'']
             else []);
          strengths1 =
            (if 100 \<le> word_count then strengths0 @ [''Detailed explanation provided'']
             else strengths0);
          improvements0 =
            (if score' < 80 then
               (if word_count < 50 then [''Provide more detailed explanations''] else [])
               @ [''Include specific examples to support your points'',
                  ''Elaborate on key concepts'']
             else []);
          improvements1 =
            (if score' < 60 then
               improvements0 @ [''Address all aspects of the question'',
                                ''Organize your thoughts more clearly'']
             else improvements0);
          improvements2 =
            (if score' < 40 then
               improvements1 @ [''Focus on understanding the core question'',
                                ''Provide more relevant information'']
             else improvements1);
          feedback' =
            (if 80 \<le> score' then
               ''Excellent answer! You demonstrated strong knowledge and communication skills.''
             else if 60 \<le> score' then
               ''Good answer with room for improvement. Consider adding more specific examples and details.''
             else if 40 \<le> score' then
               ''Fair answer. Try to provide more comprehensive responses with better structure.''
             else
               ''Needs improvement. Focus on understanding the question and providing more relevant details.'')
      in (feedback', strengths1, improvements2))"

text \<open>The dict returned for an answer that is empty or shorter than 10 characters.\<close>

definition too_short_result :: eval_result where
  "too_short_result =
     \<lparr>score = 0,
      feedback = ''Answer is too short. Please provide a more detailed response.'',
      strengths = [],
      improvements = [''Provide more detailed explanations'', ''Add relevant examples'',
                      ''Elaborate on key points'']\<rparr>"

text \<open>The dict returned by the exception handler.\<close>

definition fallback_result :: eval_result where
  "fallback_result =
     \<lparr>score = 50,
      feedback = ''Unable to evaluate answer accurately. Please try again.'',
      strengths = [''Answer provided''],
      improvements = [''Ensure answer is clear and well-structured'']\<rparr>"

text \<open>The assignment to \<open>score\<close> before it is clamped (lines 113 to 119): from
  \<open>predict_proba\<close> when the model has it, from the prediction otherwise.\<close>

definition raw_score :: "'v model_obj \<Rightarrow> 'v \<Rightarrow> prediction \<Rightarrow> int traced" where
  "raw_score m answer_vector prediction' =
     (if has_predict_proba m then
        then_do (invoke CallPredictProba (predict_proba m answer_vector)) (\<lambda>rows.
        then_do (pure (first_item rows)) (\<lambda>probabilities.
        then_do (pure (py_max probabilities)) (\<lambda>confidence.
        pure (int_of_float (fmul100 confidence)))))
      else if is_int_or_float prediction' then pure (int_of_prediction prediction')
      else pure (Inr 50))"

text \<open>Lines 124 to 132: the feedback for the clamped score and the dict that is
  returned.\<close>

definition scored_result :: "int \<Rightarrow> ustring \<Rightarrow> json \<Rightarrow> eval_result" where
  "scored_result score' user_answer question =
     (case generate_feedback score' user_answer question of
        (feedback', strengths', improvements') \<Rightarrow>
          \<lparr>score = score', feedback = feedback', strengths = strengths',
           improvements = improvements'\<rparr>)"

text \<open>The body of the \<open>try\<close> block. Reading \<open>.transform\<close> or \<open>.predict\<close> off a
  global that is \<open>None\<close> raises \<open>AttributeError\<close>.\<close>

definition inference :: "'v globals \<Rightarrow> json \<Rightarrow> ustring \<Rightarrow> eval_result traced" where
  "inference g question user_answer =
     (case vectorizer g of
        None \<Rightarrow> pure (Inl AttributeError)
      | Some vz \<Rightarrow>
          then_do (invoke CallTransform (transform vz [user_answer])) (\<lambda>answer_vector.
          case model g of
            None \<Rightarrow> pure (Inl AttributeError)
          | Some m \<Rightarrow>
              then_do (invoke CallPredict (predict m answer_vector)) (\<lambda>predictions.
              then_do (pure (first_item predictions)) (\<lambda>prediction'.
              then_do (raw_score m answer_vector prediction') (\<lambda>score0.
              let score' = max 0 (min 100 score0)
              in pure (Inr (scored_result score' user_answer question)))))))"

text \<open>
  \<open>evaluate_answer(question, user_answer)\<close>. The validation
  \<open>not user_answer or len(user_answer.strip()) < 10\<close> is outside the \<open>try\<close> block:
  a true value that is not a \<open>str\<close> has no \<open>strip\<close> and the \<open>AttributeError\<close>
  leaves the function.
\<close>

definition evaluate_answer :: "'v globals \<Rightarrow> json \<Rightarrow> json \<Rightarrow> eval_result traced" where
  "evaluate_answer g question user_answer =
     (if \<not> truthy user_answer then pure (Inr too_short_result)
      else case user_answer of
             JStr s \<Rightarrow>
               if length (py_strip s) < 10 then pure (Inr too_short_result)
               else try_except (inference g question s) fallback_result
           | _ \<Rightarrow> pure (Inl AttributeError))"

section \<open>API endpoints\<close>

record status_body =
  status_text :: string
  message :: "string option"
  model_loaded :: bool
  vectorizer_loaded :: bool

definition home :: "'v globals \<Rightarrow> status_body" where
  "home g =
     \<lparr>status_text = ''running'', message = Some ''AI Mock Interview Backend API'',
      model_loaded = (model g \<noteq> None), vectorizer_loaded = (vectorizer g \<noteq> None)\<rparr>"

definition health_check :: "'v globals \<Rightarrow> status_body" where
  "health_check g =
     \<lparr>status_text = ''healthy'', message = None,
      model_loaded = (model g \<noteq> None), vectorizer_loaded = (vectorizer g \<noteq> None)\<rparr>"

text \<open>A JSON response: the HTTP status, the \<open>error\<close> key when present, and the four
  evaluation keys.\<close>

record response =
  status :: nat
  error :: "string option"
  body :: eval_result

text \<open>
  \<open>evaluate_answer_endpoint\<close>. The argument \<open>get_json\<close> is the outcome of
  \<open>request.get_json()\<close>: either the parsed body or the HTTP error the framework
  raises for a body it cannot read. An exception that leaves the handler is answered by
  the framework, with status 500 for an exception that is not an HTTP error.
\<close>

definition evaluate_answer_endpoint :: "'v globals \<Rightarrow> exn + json \<Rightarrow> response traced" where
  "evaluate_answer_endpoint g get_json =
     (if model g = None \<or> vectorizer g = None then
        pure (Inr \<lparr>status = 500,
                   error = Some ''Model not loaded. Please restart the server.'',
                   body = \<lparr>score = 0, feedback = ''System error. Please try again later.'',
                           strengths = [], improvements = []\<rparr>\<rparr>)
      else
        then_do (pure get_json) (\<lambda>data.
        if \<not> truthy data then
          pure (Inr \<lparr>status = 400,
                     error = Some ''Invalid request. Please provide JSON data.'',
                     body = \<lparr>score = 0, feedback = ''Invalid request format.'',
                             strengths = [], improvements = []\<rparr>\<rparr>)
        else case data of
          JObj d \<Rightarrow>
            (let question = py_get d (ustr ''question'') (JStr []);
                 user_answer = py_get d (ustr ''user_answer'') (JStr [])
             in if \<not> truthy user_answer then
                  pure (Inr \<lparr>status = 400, error = Some ''user_answer is required'',
                             body = \<lparr>score = 0, feedback = ''No answer provided.'',
                                     strengths = [],
                                     improvements = [''Provide an answer to the question'']\<rparr>\<rparr>)
                else
                  then_do (evaluate_answer g question user_answer) (\<lambda>result.
                  pure (Inr \<lparr>status = 200, error = None, body = result\<rparr>)))
        | _ \<Rightarrow> pure (Inl AttributeError)))"

section \<open>Start-up\<close>

text \<open>
  What reading the two artifact files gives, with each of the two loaders: an
  exception, or the object stored in the file. The stored object is whatever was
  pickled; \<open>None\<close> is the case where it is Python's \<open>None\<close>.
\<close>

record 'v files =
  vectorizer_pickle :: "exn + 'v vectorizer_obj option"
  vectorizer_joblib :: "exn + 'v vectorizer_obj option"
  model_pickle :: "exn + 'v model_obj option"
  model_joblib :: "exn + 'v model_obj option"

text \<open>\<open>try: pickle.load(...) except Exception: joblib.load(...)\<close>.\<close>

definition load_artifact :: "exn + 'a \<Rightarrow> exn + 'a \<Rightarrow> exn + 'a" where
  "load_artifact with_pickle with_joblib =
     (case with_pickle of Inr x \<Rightarrow> Inr x | Inl _ \<Rightarrow> with_joblib)"

text \<open>\<open>load_model_and_vectorizer\<close>: the vectorizer is assigned before the model is
  read; every exception gives \<open>False\<close>, and \<open>True\<close> is returned once both loads
  have returned, whatever the objects are.\<close>

definition load_model_and_vectorizer :: "'v files \<Rightarrow> 'v globals \<Rightarrow> bool \<times> 'v globals" where
  "load_model_and_vectorizer fs g =
     (case load_artifact (vectorizer_pickle fs) (vectorizer_joblib fs) of
        Inl e \<Rightarrow> (False, g)
      | Inr vz \<Rightarrow>
          (case load_artifact (model_pickle fs) (model_joblib fs) of
             Inl e \<Rightarrow> (False, g\<lparr>vectorizer := vz\<rparr>)
           | Inr m \<Rightarrow> (True, g\<lparr>vectorizer := vz, model := m\<rparr>)))"

text \<open>The \<open>__main__\<close> block: the server runs only when loading succeeded.\<close>

datatype 'v process = Serving "'v globals" | NotServing

definition main :: "'v files \<Rightarrow> 'v process" where
  "main fs =
     (case load_model_and_vectorizer fs initial_globals of
        (True, g) \<Rightarrow> Serving g
      | (False, g) \<Rightarrow> NotServing)"

section \<open>The score as the specification words it\<close>

text \<open>The exact number denoted by a finite float.\<close>

definition float_value :: "int \<Rightarrow> int \<Rightarrow> rat" where
  "float_value m e = (if 0 \<le> e then of_int m * 2 ^ nat e else of_int m / 2 ^ nat (- e))"

text \<open>The specification's wording of the score taken from a class probability:
  the probability times 100, rounded to the nearest integer.\<close>

definition spec_rounded_score :: "int \<Rightarrow> int \<Rightarrow> int" where
  "spec_rounded_score m e = round (float_value m e * 100)"


section \<open>Concrete artifacts and requests\<close>

text \<open>An answer of six words and 31 characters.\<close>

definition example_answer :: ustring where
  "example_answer = ustr ''I have five years of experience''"

text \<open>A vectorizer that returns the number of texts as the feature vector, and one
  whose \<open>transform\<close> raises.\<close>

definition counting_vectorizer :: "nat vectorizer_obj" where
  "counting_vectorizer = \<lparr>transform = (\<lambda>texts. Inr (length texts))\<rparr>"

definition raising_vectorizer :: "nat vectorizer_obj" where
  "raising_vectorizer = \<lparr>transform = (\<lambda>texts. Inl ValueError)\<rparr>"

text \<open>A classifier with two classes of probabilities 0.875 and 0.125 (both are exact
  binary fractions: 7/8 and 1/8).\<close>

definition proba_model :: "nat model_obj" where
  "proba_model =
     \<lparr>has_predict_proba = True,
      predict = (\<lambda>v. Inr [PredOther]),
      predict_proba = (\<lambda>v. Inr [[Finite 7 (- 3), Finite 1 (- 3)]])\<rparr>"

text \<open>A model without \<open>predict_proba\<close> that predicts the Python integer 72.\<close>

definition plain_model :: "nat model_obj" where
  "plain_model =
     \<lparr>has_predict_proba = False,
      predict = (\<lambda>v. Inr [PredInt 72]),
      predict_proba = (\<lambda>v. Inl AttributeError)\<rparr>"

text \<open>A classifier without \<open>predict_proba\<close> whose label is the numpy integer 72, as
  \<open>predict(...)[0]\<close> of a scikit-learn classifier with integer labels is, and a
  regressor whose prediction is the float infinity.\<close>

definition numpy_label_model :: "nat model_obj" where
  "numpy_label_model =
     \<lparr>has_predict_proba = False,
      predict = (\<lambda>v. Inr [PredNumpyInt 72]),
      predict_proba = (\<lambda>v. Inl AttributeError)\<rparr>"

definition infinite_model :: "nat model_obj" where
  "infinite_model =
     \<lparr>has_predict_proba = False,
      predict = (\<lambda>v. Inr [PredFloat PosInf]),
      predict_proba = (\<lambda>v. Inl AttributeError)\<rparr>"

definition numpy_label_globals :: "nat globals" where
  "numpy_label_globals =
     \<lparr>model = Some numpy_label_model, vectorizer = Some counting_vectorizer\<rparr>"

definition infinite_globals :: "nat globals" where
  "infinite_globals = \<lparr>model = Some infinite_model, vectorizer = Some counting_vectorizer\<rparr>"

definition proba_globals :: "nat globals" where
  "proba_globals = \<lparr>model = Some proba_model, vectorizer = Some counting_vectorizer\<rparr>"

definition plain_globals :: "nat globals" where
  "plain_globals = \<lparr>model = Some plain_model, vectorizer = Some counting_vectorizer\<rparr>"

definition raising_globals :: "nat globals" where
  "raising_globals = \<lparr>model = Some plain_model, vectorizer = Some raising_vectorizer\<rparr>"

text \<open>The artifact directory with the vectorizer file present and the model file
  missing.\<close>

definition model_file_missing :: "nat files" where
  "model_file_missing =
     \<lparr>vectorizer_pickle = Inr (Some counting_vectorizer),
      vectorizer_joblib = Inr (Some counting_vectorizer),
      model_pickle = Inl FileNotFoundError,
      model_joblib = Inl FileNotFoundError\<rparr>"

section \<open>Basic facts about the combinators\<close>

lemma then_do_Inr_iff:
  "fst (then_do x f) = Inr b \<longleftrightarrow> (\<exists>a. fst x = Inr a \<and> fst (f a) = Inr b)"
  by (cases "fst x") (simp_all add: then_do_def)

lemma then_do_simps [simp]:
  "then_do (Inl e, cs) f = (Inl e, cs)"
  "then_do (Inr a, cs) f = (fst (f a), cs @ snd (f a))"
  by (simp_all add: then_do_def)

lemma fst_pure [simp]: "fst (pure r) = r"
  by (simp add: pure_def)

lemma snd_pure [simp]: "snd (pure r) = []"
  by (simp add: pure_def)

lemma fst_invoke [simp]: "fst (invoke c r) = r"
  by (simp add: invoke_def)

lemma snd_invoke [simp]: "snd (invoke c r) = [c]"
  by (simp add: invoke_def)

lemma try_except_returns: "\<exists>r. fst (try_except x h) = Inr r"
  by (cases "fst x") (simp_all add: try_except_def)

lemma try_except_cases:
  "fst (try_except x h) = Inr r \<Longrightarrow> r = h \<or> fst x = Inr r"
  by (cases "fst x") (auto simp add: try_except_def)

lemma try_except_Inl: "fst x = Inl e \<Longrightarrow> fst (try_except x h) = Inr h"
  by (simp add: try_except_def)

lemma try_except_Inr: "fst x = Inr r \<Longrightarrow> fst (try_except x h) = Inr r"
  by (simp add: try_except_def)

lemma score_scored_result [simp]: "score (scored_result n a q) = n"
  by (simp add: scored_result_def split: prod.splits)

lemma inference_score_range:
  assumes "fst (inference g q s) = Inr r"
  shows "0 \<le> score r \<and> score r \<le> 100"
proof (cases "vectorizer g")
  case None
  with assms show ?thesis by (simp add: inference_def)
next
  case vz: (Some vz)
  show ?thesis
  proof (cases "model g")
    case None
    with assms vz show ?thesis by (auto simp add: inference_def then_do_Inr_iff)
  next
    case (Some m)
    with assms vz obtain n where "r = scored_result (max 0 (min 100 n)) s q"
      by (auto simp add: inference_def then_do_Inr_iff Let_def)
    then show ?thesis by simp
  qed
qed

lemma ustr_Nil [simp]: "ustr [] = []"
  by (simp add: ustr_def)

lemma ustr_Cons [simp]: "ustr (c # cs) = of_char c # ustr cs"
  by (simp add: ustr_def)

lemma length_strip_example: "length (py_strip example_answer) = 31"
  by (simp add: example_answer_def py_strip_def py_isspace_def)

lemma truthy_long_answer: "10 \<le> length (py_strip s) \<Longrightarrow> truthy (JStr s)"
  by (auto simp add: py_strip_def)

lemma evaluate_answer_long:
  "10 \<le> length (py_strip s) \<Longrightarrow>
   evaluate_answer g q (JStr s) = try_except (inference g q s) fallback_result"
  using truthy_long_answer [of s] by (simp add: evaluate_answer_def)

section \<open>The score is bounded\<close>

text \<open>
  Claim C1. Whatever the question and the answer, a dict returned by
  \<open>evaluate_answer\<close> has an integer score between 0 and 100: 0 on the short-answer
  branch, the clamped value on the model branch, 50 from the exception handler. The
  function does return a dict for every answer that is a string or has a false truth
  value.
\<close>

theorem evaluate_answer_score_in_range:
  "(\<not> truthy a \<or> (\<exists>s. a = JStr s) \<longrightarrow> (\<exists>r. fst (evaluate_answer g q a) = Inr r))
   \<and> (\<forall>r. fst (evaluate_answer g q a) = Inr r \<longrightarrow> 0 \<le> score r \<and> score r \<le> 100)"
proof (rule conjI)
  show "\<not> truthy a \<or> (\<exists>s. a = JStr s) \<longrightarrow> (\<exists>r. fst (evaluate_answer g q a) = Inr r)"
    by (auto simp add: evaluate_answer_def try_except_returns)
next
  have "0 \<le> score r \<and> score r \<le> 100" if r: "fst (evaluate_answer g q a) = Inr r" for r
  proof (cases "truthy a")
    case False
    with r show ?thesis by (auto simp add: evaluate_answer_def too_short_result_def)
  next
    case True
    show ?thesis
    proof (cases a)
      case (JStr s)
      show ?thesis
      proof (cases "length (py_strip s) < 10")
        case True
        with r JStr \<open>truthy a\<close> show ?thesis
          by (auto simp add: evaluate_answer_def too_short_result_def)
      next
        case False
        with r JStr \<open>truthy a\<close>
        have "fst (try_except (inference g q s) fallback_result) = Inr r"
          by (simp add: evaluate_answer_def)
        then have "r = fallback_result \<or> fst (inference g q s) = Inr r"
          by (rule try_except_cases)
        then show ?thesis
          using inference_score_range by (auto simp add: fallback_result_def)
      qed
    qed (use r True in \<open>simp_all add: evaluate_answer_def\<close>)
  qed
  then show "\<forall>r. fst (evaluate_answer g q a) = Inr r \<longrightarrow> 0 \<le> score r \<and> score r \<le> 100"
    by blast
qed

theorem evaluate_answer_score_in_range_witness:
  "(\<exists>r. fst (evaluate_answer plain_globals JNull (JStr example_answer)) = Inr r
        \<and> 0 \<le> score r \<and> score r \<le> 100)"
  using evaluate_answer_score_in_range [of "JStr example_answer" plain_globals JNull]
  by auto

section \<open>Short answers\<close>

text \<open>
  Claim C2. An answer with a false truth value (empty string, \<open>None\<close>, ...) or whose
  stripped length is below 10 gets score 0 and the three fixed improvement
  suggestions; no method of the vectorizer or of the model is called.
\<close>

theorem short_answer_scores_zero:
  "\<not> truthy a \<or> (\<exists>s. a = JStr s \<and> length (py_strip s) < 10) \<Longrightarrow>
   evaluate_answer g q a = (Inr too_short_result, [])
   \<and> score too_short_result = 0
   \<and> improvements too_short_result =
       [''Provide more detailed explanations'', ''Add relevant examples'',
        ''Elaborate on key points'']"
  by (auto simp add: evaluate_answer_def too_short_result_def pure_def)

theorem short_answer_scores_zero_witness:
  "length (py_strip (ustr ''  too short  '')) < 10
   \<and> evaluate_answer raising_globals JNull (JStr (ustr ''  too short  ''))
       = (Inr too_short_result, [])
   \<and> evaluate_answer raising_globals JNull JNull = (Inr too_short_result, [])"
proof -
  have len: "length (py_strip (ustr ''  too short  '')) < 10"
    by (simp add: py_strip_def py_isspace_def)
  then have "\<not> truthy (JStr (ustr ''  too short  ''))
      \<or> (\<exists>s. JStr (ustr ''  too short  '') = JStr s \<and> length (py_strip s) < 10)"
    by blast
  from short_answer_scores_zero [OF this, of raising_globals JNull]
    short_answer_scores_zero [of JNull raising_globals JNull] len
  show ?thesis by simp
qed

section \<open>Feedback generation\<close>

text \<open>
  Claim C5. The overall feedback text is chosen by exact thresholds on the score:
  the Excellent text exactly when the score is at least 80, the Good text exactly
  from 60 to 79, the Fair text exactly from 40 to 59 and the Needs-improvement text
  exactly below 40. Scores 79 and 80 get different texts.
\<close>

theorem feedback_bucket_thresholds:
  "(fst (generate_feedback s a q) =
      ''Excellent answer! You demonstrated strong knowledge and communication skills.'')
     = (80 \<le> s)
   \<and> (fst (generate_feedback s a q) =
      ''Good answer with room for improvement. Consider adding more specific examples and details.'')
     = (60 \<le> s \<and> s < 80)
   \<and> (fst (generate_feedback s a q) =
      ''Fair answer. Try to provide more comprehensive responses with better structure.'')
     = (40 \<le> s \<and> s < 60)
   \<and> (fst (generate_feedback s a q) =
      ''Needs improvement. Focus on understanding the question and providing more relevant details.'')
     = (s < 40)
   \<and> fst (generate_feedback 79 a q) \<noteq> fst (generate_feedback 80 a q)"
  by (simp add: generate_feedback_def Let_def)

text \<open>
  Claim C7. \<open>generate_feedback\<close> depends on the score and on the number of words of
  the answer only: two calls with the same score and answers of the same word count
  return the same triple, whatever the two questions are.
\<close>

theorem generate_feedback_depends_on_score_and_word_count:
  "length (py_split a1) = length (py_split a2) \<Longrightarrow>
   generate_feedback s a1 q1 = generate_feedback s a2 q2"
  by (simp add: generate_feedback_def)

theorem generate_feedback_depends_on_score_and_word_count_witness:
  "length (py_split (ustr ''clear and short'')) = length (py_split (ustr '' one  two three ''))
   \<and> generate_feedback 65 (ustr ''clear and short'') (JStr (ustr ''Why?''))
       = generate_feedback 65 (ustr '' one  two three '') JNull"
proof -
  have wc: "length (py_split (ustr ''clear and short''))
      = length (py_split (ustr '' one  two three ''))"
    by (simp add: py_split_def py_isspace_def)
  from generate_feedback_depends_on_score_and_word_count [OF wc] wc
  show ?thesis by blast
qed

text \<open>
  Claim C10. The list of improvements returned by \<open>generate_feedback\<close> is empty
  exactly when the score is at least 80; so the Excellent text always comes with no
  improvement.
\<close>

theorem improvements_empty_iff_excellent:
  "(snd (snd (generate_feedback s a q)) = []) = (80 \<le> s)
   \<and> ((fst (generate_feedback s a q) =
        ''Excellent answer! You demonstrated strong knowledge and communication skills.'')
      = (snd (snd (generate_feedback s a q)) = []))"
  by (simp add: generate_feedback_def Let_def)

section \<open>Evaluating the inference path\<close>

lemma py_trunc_floor: "0 \<le> m \<Longrightarrow> py_trunc m e = \<lfloor>float_value m e\<rfloor>"
proof (cases "0 \<le> e")
  case True
  have "float_value m e = of_int (m * 2 ^ nat e)"
    using True by (simp add: float_value_def)
  then show ?thesis using True by (simp add: py_trunc_def del: of_int_mult)
next
  case False
  assume "0 \<le> m"
  have "float_value m e = of_int m / of_int (2 ^ nat (- e))"
    using False by (simp add: float_value_def)
  then have "\<lfloor>float_value m e\<rfloor> = m div 2 ^ nat (- e)"
    by (simp only: floor_divide_of_int_eq)
  then show ?thesis using False \<open>0 \<le> m\<close> by (simp add: py_trunc_def)
qed

lemma inference_after_predict:
  assumes "vectorizer g = Some vz" and "transform vz [s] = Inr av"
    and "model g = Some m" and "predict m av = Inr (p # ps)"
  shows "inference g q s =
     (case fst (raw_score m av p) of
        Inl e \<Rightarrow> (Inl e, [CallTransform, CallPredict] @ snd (raw_score m av p))
      | Inr n \<Rightarrow> (Inr (scored_result (max 0 (min 100 n)) s q),
                  [CallTransform, CallPredict] @ snd (raw_score m av p)))"
  using assms
  by (cases "fst (raw_score m av p)")
    (simp_all add: inference_def invoke_def pure_def first_item_def then_do_def Let_def)

lemma raw_score_proba:
  assumes "has_predict_proba m" and "predict_proba m av = Inr (row # rows)"
    and "py_max row = Inr c"
  shows "raw_score m av p = (int_of_float (fmul100 c), [CallPredictProba])"
  using assms
  by (cases "int_of_float (fmul100 c)")
    (simp_all add: raw_score_def invoke_def pure_def first_item_def)


lemma proba_model_sel [simp]:
  "has_predict_proba proba_model"
  "predict proba_model v = Inr [PredOther]"
  "predict_proba proba_model v = Inr [[Finite 7 (- 3), Finite 1 (- 3)]]"
  by (simp_all add: proba_model_def)

lemma plain_model_sel [simp]:
  "\<not> has_predict_proba plain_model"
  "predict plain_model v = Inr [PredInt 72]"
  by (simp_all add: plain_model_def)

lemma globals_sel [simp]:
  "model proba_globals = Some proba_model"
  "vectorizer proba_globals = Some counting_vectorizer"
  "model plain_globals = Some plain_model"
  "vectorizer plain_globals = Some counting_vectorizer"
  "model raising_globals = Some plain_model"
  "vectorizer raising_globals = Some raising_vectorizer"
  by (simp_all add: proba_globals_def plain_globals_def raising_globals_def)

lemma vectorizer_sel [simp]:
  "transform counting_vectorizer texts = Inr (length texts)"
  "transform raising_vectorizer texts = Inl ValueError"
  by (simp_all add: counting_vectorizer_def raising_vectorizer_def)

lemma other_models_sel [simp]:
  "\<not> has_predict_proba numpy_label_model"
  "predict numpy_label_model v = Inr [PredNumpyInt 72]"
  "\<not> has_predict_proba infinite_model"
  "predict infinite_model v = Inr [PredFloat PosInf]"
  "model numpy_label_globals = Some numpy_label_model"
  "vectorizer numpy_label_globals = Some counting_vectorizer"
  "model infinite_globals = Some infinite_model"
  "vectorizer infinite_globals = Some counting_vectorizer"
  by (simp_all add: numpy_label_model_def infinite_model_def numpy_label_globals_def
      infinite_globals_def)



lemma max_example: "py_max [Finite 7 (- 3), Finite 1 (- 3)] = Inr (Finite 7 (- 3))"
  by (simp add: py_max_def)

lemma product_example: "fmul100 (Finite 7 (- 3)) = Finite 700 (- 3)"
  by (simp add: fmul100_def round_double_def excess_bits.simps round_shift_def)

lemma trunc_example: "py_trunc 700 (- 3) = 87"
  by (simp add: py_trunc_def)

lemma inference_transform_raises:
  "vectorizer g = Some vz \<Longrightarrow> transform vz [s] = Inl e \<Longrightarrow>
   inference g q s = (Inl e, [CallTransform])"
  by (simp add: inference_def invoke_def)

lemma inference_predict_raises:
  "vectorizer g = Some vz \<Longrightarrow> transform vz [s] = Inr av \<Longrightarrow> model g = Some m \<Longrightarrow>
   predict m av = Inl e \<Longrightarrow> inference g q s = (Inl e, [CallTransform, CallPredict])"
  by (simp add: inference_def invoke_def)

lemma raw_score_proba_raises:
  "has_predict_proba m \<Longrightarrow> predict_proba m av = Inl e \<Longrightarrow>
   raw_score m av p = (Inl e, [CallPredictProba])"
  by (simp add: raw_score_def invoke_def)

lemma scored_example:
  "scored_result 87 example_answer JNull =
     \<lparr>score = 87,
      feedback = ''Excellent answer! You demonstrated strong knowledge and communication skills.'',
      strengths = [''Comprehensive and well-structured answer'',
                   ''Demonstrates strong understanding'',
                   ''Clear and articulate communication''],
      improvements = []\<rparr>"
  by (simp add: scored_result_def generate_feedback_def example_answer_def py_split_def
      py_isspace_def)

section \<open>The score taken from the class probabilities\<close>

text \<open>
  Claim C3, as amended. For an answer of stripped length at least 10, when the model
  has \<open>predict_proba\<close>, the score before clamping is \<open>int(confidence * 100)\<close>: the
  float product of the largest class probability and 100, truncated towards zero
  (its floor, for a probability that is not negative), not rounded to the nearest
  integer. The returned score is that integer clamped to 0..100.
\<close>

theorem proba_score_is_truncated_product:
  assumes "10 \<le> length (py_strip s)"
    and "vectorizer g = Some vz" and "transform vz [s] = Inr av"
    and "model g = Some m" and "predict m av = Inr (p # ps)"
    and "has_predict_proba m" and "predict_proba m av = Inr (row # rows)"
    and "py_max row = Inr c" and "fmul100 c = Finite pm pe"
  shows "raw_score m av p = (Inr (py_trunc pm pe), [CallPredictProba])
    \<and> evaluate_answer g q (JStr s) =
        (Inr (scored_result (max 0 (min 100 (py_trunc pm pe))) s q),
         [CallTransform, CallPredict, CallPredictProba])
    \<and> (0 \<le> pm \<longrightarrow> py_trunc pm pe = \<lfloor>float_value pm pe\<rfloor>)"
proof -
  have raw: "raw_score m av p = (Inr (py_trunc pm pe), [CallPredictProba])"
    using raw_score_proba [OF assms(6,7,8), of p] assms(9) by (simp add: int_of_float_def)
  have "inference g q s =
      (Inr (scored_result (max 0 (min 100 (py_trunc pm pe))) s q),
       [CallTransform, CallPredict, CallPredictProba])"
    using inference_after_predict [OF assms(2,3,4,5), of q] by (simp add: raw)
  then have "evaluate_answer g q (JStr s) =
      (Inr (scored_result (max 0 (min 100 (py_trunc pm pe))) s q),
       [CallTransform, CallPredict, CallPredictProba])"
    using assms(1) by (simp add: evaluate_answer_long try_except_def)
  with raw py_trunc_floor show ?thesis by blast
qed

theorem proba_score_is_truncated_product_witness:
  "10 \<le> length (py_strip example_answer)
   \<and> py_max [Finite 7 (- 3), Finite 1 (- 3)] = Inr (Finite 7 (- 3))
   \<and> fmul100 (Finite 7 (- 3)) = Finite 700 (- 3)
   \<and> evaluate_answer proba_globals (JStr (ustr ''Why?'')) (JStr example_answer) =
        (Inr (scored_result (max 0 (min 100 (py_trunc 700 (- 3)))) example_answer
               (JStr (ustr ''Why?''))),
         [CallTransform, CallPredict, CallPredictProba])
   \<and> py_trunc 700 (- 3) = \<lfloor>float_value 700 (- 3)\<rfloor>"
proof -
  have len: "10 \<le> length (py_strip example_answer)"
    by (simp add: length_strip_example)
  from proba_score_is_truncated_product [OF len, of proba_globals counting_vectorizer 1 proba_model PredOther "[]"
      "[Finite 7 (- 3), Finite 1 (- 3)]" "[]" "Finite 7 (- 3)" 700 "- 3" "JStr (ustr ''Why?'')"]
    len max_example product_example
  show ?thesis by simp
qed

text \<open>
  Claim C3 as stated fails: with class probabilities 0.875 and 0.125 the product is
  87.5, the code's score is 87, and rounding gives 88.
\<close>

theorem proba_score_not_rounded_counterexample:
  "evaluate_answer proba_globals JNull (JStr example_answer) =
     (Inr \<lparr>score = 87,
           feedback = ''Excellent answer! You demonstrated strong knowledge and communication skills.'',
           strengths = [''Comprehensive and well-structured answer'',
                        ''Demonstrates strong understanding'',
                        ''Clear and articulate communication''],
           improvements = []\<rparr>,
      [CallTransform, CallPredict, CallPredictProba])
   \<and> raw_score proba_model 1 PredOther = (Inr 87, [CallPredictProba])
   \<and> float_value 7 (- 3) = 7 / 8
   \<and> spec_rounded_score 7 (- 3) = 88"
proof -
  have raw: "raw_score proba_model v PredOther = (Inr 87, [CallPredictProba])" for v
    using raw_score_proba [of proba_model v "[Finite 7 (- 3), Finite 1 (- 3)]" "[]",
        OF _ _ max_example]
    by (simp add: product_example int_of_float_def trunc_example)
  have "inference proba_globals JNull example_answer
      = (Inr (scored_result 87 example_answer JNull),
         [CallTransform, CallPredict, CallPredictProba])"
    using inference_after_predict [of proba_globals counting_vectorizer example_answer 1
        proba_model PredOther "[]" JNull]
    by (simp add: raw)
  then have ev: "evaluate_answer proba_globals JNull (JStr example_answer)
      = (Inr (scored_result 87 example_answer JNull),
         [CallTransform, CallPredict, CallPredictProba])"
    using length_strip_example by (simp add: evaluate_answer_long try_except_def)
  have fv: "float_value 7 (- 3) = 7 / 8"
    by (simp add: float_value_def)
  have sp: "spec_rounded_score 7 (- 3) = 88"
    by (simp add: spec_rounded_score_def fv round_def)
  from raw [of 1] ev fv sp show ?thesis by (simp add: scored_example)
qed

section \<open>The score taken from the prediction\<close>




section \<open>Failures during inference\<close>

text \<open>
  Claim C6. For an answer that reaches the \<open>try\<close> block, \<open>evaluate_answer\<close>
  always returns a dict, and whenever the block raises (the vectorizer's
  \<open>transform\<close>, the model's \<open>predict\<close> or \<open>predict_proba\<close>, or any later
  step) the dict is the fixed fallback with score 50.
\<close>

theorem inference_failure_returns_fallback:
  assumes "10 \<le> length (py_strip s)"
  shows "(\<exists>r. fst (evaluate_answer g q (JStr s)) = Inr r)
    \<and> (\<forall>e. fst (inference g q s) = Inl e \<longrightarrow>
          fst (evaluate_answer g q (JStr s)) = Inr fallback_result)
    \<and> (\<forall>vz e. vectorizer g = Some vz \<and> transform vz [s] = Inl e \<longrightarrow>
          fst (evaluate_answer g q (JStr s)) = Inr fallback_result)
    \<and> (\<forall>vz av m e. vectorizer g = Some vz \<and> transform vz [s] = Inr av
          \<and> model g = Some m \<and> predict m av = Inl e \<longrightarrow>
          fst (evaluate_answer g q (JStr s)) = Inr fallback_result)
    \<and> (\<forall>vz av m p ps e. vectorizer g = Some vz \<and> transform vz [s] = Inr av
          \<and> model g = Some m \<and> predict m av = Inr (p # ps)
          \<and> has_predict_proba m \<and> predict_proba m av = Inl e \<longrightarrow>
          fst (evaluate_answer g q (JStr s)) = Inr fallback_result)
    \<and> fallback_result =
        \<lparr>score = 50,
         feedback = ''Unable to evaluate answer accurately. Please try again.'',
         strengths = [''Answer provided''],
         improvements = [''Ensure answer is clear and well-structured'']\<rparr>"
proof -
  have ev: "evaluate_answer g q (JStr s) = try_except (inference g q s) fallback_result"
    using assms by (rule evaluate_answer_long)
  have caught: "fst (evaluate_answer g q (JStr s)) = Inr fallback_result"
    if "fst (inference g q s) = Inl e" for e
    using that by (simp add: ev try_except_Inl)
  have 1: "\<exists>r. fst (evaluate_answer g q (JStr s)) = Inr r"
    by (simp add: ev try_except_returns)
  have 3: "fst (evaluate_answer g q (JStr s)) = Inr fallback_result"
    if "vectorizer g = Some vz" "transform vz [s] = Inl e" for vz e
    using inference_transform_raises [OF that, of q] by (intro caught [of e]) simp
  have 4: "fst (evaluate_answer g q (JStr s)) = Inr fallback_result"
    if "vectorizer g = Some vz" "transform vz [s] = Inr av" "model g = Some m"
      "predict m av = Inl e" for vz av m e
    using inference_predict_raises [OF that, of q] by (intro caught [of e]) simp
  have 5: "fst (evaluate_answer g q (JStr s)) = Inr fallback_result"
    if "vectorizer g = Some vz" "transform vz [s] = Inr av" "model g = Some m"
      "predict m av = Inr (p # ps)" "has_predict_proba m" "predict_proba m av = Inl e"
    for vz av m p ps e
    using inference_after_predict [OF that(1,2,3,4), of q]
      raw_score_proba_raises [OF that(5,6), of p]
    by (intro caught [of e]) simp
  show ?thesis
    using 1 caught 3 4 5 by (simp add: fallback_result_def)
qed

theorem inference_failure_returns_fallback_witness:
  "10 \<le> length (py_strip example_answer)
   \<and> transform raising_vectorizer [example_answer] = Inl ValueError
   \<and> fst (evaluate_answer raising_globals JNull (JStr example_answer)) = Inr fallback_result
   \<and> score fallback_result = 50"
proof -
  have len: "10 \<le> length (py_strip example_answer)"
    by (simp add: length_strip_example)
  from inference_failure_returns_fallback [OF len, of raising_globals JNull] len
  show ?thesis by (simp add: fallback_result_def)
qed

section \<open>The endpoint\<close>

text \<open>With both artifacts loaded, a body that is a JSON object without the key
  \<open>user_answer\<close> is answered with status 400 and an error message.\<close>

lemma object_without_user_answer_gives_400:
  assumes "model g \<noteq> None" and "vectorizer g \<noteq> None"
    and "map_of d (ustr ''user_answer'') = None"
  shows "evaluate_answer_endpoint g (Inr (JObj d)) =
     (if d = [] then
        (Inr \<lparr>status = 400, error = Some ''Invalid request. Please provide JSON data.'',
              body = \<lparr>score = 0, feedback = ''Invalid request format.'',
                      strengths = [], improvements = []\<rparr>\<rparr>, [])
      else
        (Inr \<lparr>status = 400, error = Some ''user_answer is required'',
              body = \<lparr>score = 0, feedback = ''No answer provided.'',
                      strengths = [],
                      improvements = [''Provide an answer to the question'']\<rparr>\<rparr>, []))"
  using assms
  by (simp add: evaluate_answer_endpoint_def pure_def py_get_def Let_def)

text \<open>So is a body with a false truth value (\<open>null\<close>, \<open>false\<close>, 0, an empty
  string, list or object).\<close>

lemma falsy_body_gives_400:
  assumes "model g \<noteq> None" and "vectorizer g \<noteq> None" and "\<not> truthy data"
  shows "evaluate_answer_endpoint g (Inr data) =
     (Inr \<lparr>status = 400, error = Some ''Invalid request. Please provide JSON data.'',
           body = \<lparr>score = 0, feedback = ''Invalid request format.'',
                   strengths = [], improvements = []\<rparr>\<rparr>, [])"
  using assms by (simp add: evaluate_answer_endpoint_def pure_def)

text \<open>A body with a true truth value that is not an object has no \<open>get\<close>: the
  \<open>AttributeError\<close> raised by \<open>data.get\<close> leaves the handler.\<close>

lemma non_object_body_raises:
  assumes "model g \<noteq> None" and "vectorizer g \<noteq> None" and "truthy data"
    and "\<forall>d. data \<noteq> JObj d"
  shows "evaluate_answer_endpoint g (Inr data) = (Inl AttributeError, [])"
  using assms by (cases data) (simp_all add: evaluate_answer_endpoint_def pure_def)

text \<open>
  Claim C8. With both artifacts loaded, a request whose parsed JSON body lacks the
  field \<open>user_answer\<close> is to be answered with status 400 and an error message. The
  program does so for an object and for a body with a false truth value, but not for
  the body \<open>[1]\<close>: it is parsed, it has no \<open>user_answer\<close>, it passes
  \<open>if not data\<close>, and \<open>data.get\<close> raises \<open>AttributeError\<close>, which no handler
  of the program catches.
\<close>

theorem list_body_raises_attribute_error:
  "model plain_globals \<noteq> None \<and> vectorizer plain_globals \<noteq> None
   \<and> truthy (JArr [JInt 1])
   \<and> evaluate_answer_endpoint plain_globals (Inr (JArr [JInt 1])) = (Inl AttributeError, [])
   \<and> evaluate_answer_endpoint plain_globals (Inr (JStr (ustr ''hello''))) =
       (Inl AttributeError, [])
   \<and> evaluate_answer_endpoint plain_globals (Inr (JInt 5)) = (Inl AttributeError, [])
   \<and> evaluate_answer_endpoint plain_globals (Inr (JBool True)) = (Inl AttributeError, [])"
  by (simp add: evaluate_answer_endpoint_def pure_def)

text \<open>The script serves whatever the two loads returned, also when a stored object
  is \<open>None\<close>.\<close>

lemma main_serves_what_was_loaded:
  assumes "load_artifact (vectorizer_pickle fs) (vectorizer_joblib fs) = Inr vz"
    and "load_artifact (model_pickle fs) (model_joblib fs) = Inr m"
  shows "main fs = Serving \<lparr>model = m, vectorizer = vz\<rparr>"
  using assms
  by (simp add: main_def load_model_and_vectorizer_def initial_globals_def)

text \<open>
  Claim C9, as amended. While \<open>model\<close> or \<open>vectorizer\<close> is \<open>None\<close>, the evaluation
  endpoint answers 500 without looking at the request. Each of the two flags of the
  health endpoints is false exactly when its own artifact is \<open>None\<close>. When the
  script is run and loading fails, the server is not started.
\<close>

theorem unloaded_artifacts_give_500:
  "(model g = None \<or> vectorizer g = None \<longrightarrow>
      evaluate_answer_endpoint g get_json =
        (Inr \<lparr>status = 500, error = Some ''Model not loaded. Please restart the server.'',
              body = \<lparr>score = 0, feedback = ''System error. Please try again later.'',
                      strengths = [], improvements = []\<rparr>\<rparr>, []))
   \<and> model_loaded (health_check g) = (model g \<noteq> None)
   \<and> vectorizer_loaded (health_check g) = (vectorizer g \<noteq> None)
   \<and> model_loaded (home g) = (model g \<noteq> None)
   \<and> vectorizer_loaded (home g) = (vectorizer g \<noteq> None)
   \<and> (\<not> fst (load_model_and_vectorizer fs initial_globals) \<longrightarrow> main fs = NotServing)"
  by (auto simp add: evaluate_answer_endpoint_def pure_def health_check_def home_def
      main_def split: prod.splits bool.splits)

theorem unloaded_artifacts_give_500_witness:
  "(model (initial_globals :: nat globals) = None \<or> vectorizer (initial_globals :: nat globals) = None)
   \<and> evaluate_answer_endpoint (initial_globals :: nat globals) (Inl (HTTPException 400)) =
        (Inr \<lparr>status = 500, error = Some ''Model not loaded. Please restart the server.'',
              body = \<lparr>score = 0, feedback = ''System error. Please try again later.'',
                      strengths = [], improvements = []\<rparr>\<rparr>, [])
   \<and> \<not> model_loaded (health_check (initial_globals :: nat globals))
   \<and> \<not> vectorizer_loaded (health_check (initial_globals :: nat globals))
   \<and> \<not> fst (load_model_and_vectorizer model_file_missing initial_globals)
   \<and> main model_file_missing = NotServing"
proof -
  have n: "model (initial_globals :: nat globals) = None \<or> vectorizer (initial_globals :: nat globals) = None"
    by (simp add: initial_globals_def)
  have l: "\<not> fst (load_model_and_vectorizer model_file_missing initial_globals)"
    by (simp add: load_model_and_vectorizer_def load_artifact_def model_file_missing_def)
  from unloaded_artifacts_give_500 [of "initial_globals :: nat globals" "Inl (HTTPException 400)" model_file_missing] n l
  show ?thesis by (simp add: initial_globals_def)
qed

text \<open>
  Claim C9 as stated fails: when the model file is missing, loading leaves the
  vectorizer assigned and the model \<open>None\<close>, the script does not start the server,
  and in that state the health endpoints report the vectorizer as loaded.
\<close>

theorem failed_load_counterexample:
  "load_model_and_vectorizer model_file_missing initial_globals =
     (False, \<lparr>model = None, vectorizer = Some counting_vectorizer\<rparr>)
   \<and> main model_file_missing = NotServing
   \<and> vectorizer_loaded (health_check \<lparr>model = None, vectorizer = Some counting_vectorizer\<rparr>)
   \<and> vectorizer_loaded (home \<lparr>model = None, vectorizer = Some counting_vectorizer\<rparr>)"
  by (simp add: load_model_and_vectorizer_def load_artifact_def model_file_missing_def
      initial_globals_def main_def health_check_def home_def)

end
